theory Spec2Isabelle
  imports Complex_Main "HOL-Library.AList"
begin

section \<open>Values of a float64 column\<close>

text \<open>
  The analyzer of \<^verbatim>\<open>project.py\<close> works on pandas columns of dtype float64. A cell is
  modelled as a real number or one of the three special values of IEEE 754 that the
  code can produce: \<open>NaN\<close> (pandas' marker for a missing or undefined cell) and the two
  infinities (from a division by zero). Arithmetic on finite cells is exact real
  arithmetic: rounding, overflow and underflow of float64 are not part of the model,
  and the zero is unsigned. The sign of a zero only chooses between the two infinities
  in a division, and the RSI formula maps both infinities to the same value (lemma
  \<open>rsi_formula_infinite\<close> below). What the model decides exactly is which cells are
  missing, zero or infinite, and how many cells a window holds; the digits of a finite
  cell are those of the real number, not of its float64 rounding. The theorems about
  RSI values are therefore stated relative to the two window averages, and the
  examples assert which cells are defined, not their digits.
\<close>

datatype float64 = NaN | PInf | NInf | Fin real

datatype error = ValueError | KeyError | TypeError | AttributeError

fun fneg :: "float64 \<Rightarrow> float64" where
  "fneg NaN = NaN"
| "fneg PInf = NInf"
| "fneg NInf = PInf"
| "fneg (Fin x) = Fin (- x)"

fun fadd :: "float64 \<Rightarrow> float64 \<Rightarrow> float64" where
  "fadd NaN _ = NaN"
| "fadd _ NaN = NaN"
| "fadd PInf NInf = NaN"
| "fadd NInf PInf = NaN"
| "fadd PInf _ = PInf"
| "fadd _ PInf = PInf"
| "fadd NInf _ = NInf"
| "fadd _ NInf = NInf"
| "fadd (Fin x) (Fin y) = Fin (x + y)"

definition fsub :: "float64 \<Rightarrow> float64 \<Rightarrow> float64" where
  "fsub a b = fadd a (fneg b)"

fun fdiv :: "float64 \<Rightarrow> float64 \<Rightarrow> float64" where
  "fdiv NaN _ = NaN"
| "fdiv _ NaN = NaN"
| "fdiv (Fin x) (Fin y) =
     (if y \<noteq> 0 then Fin (x / y)
      else if x = 0 then NaN
      else if 0 < x then PInf else NInf)"
| "fdiv (Fin x) _ = Fin 0"
| "fdiv PInf (Fin y) = (if 0 \<le> y then PInf else NInf)"
| "fdiv NInf (Fin y) = (if 0 \<le> y then NInf else PInf)"
| "fdiv _ _ = NaN"

text \<open>Comparisons with a NaN operand are false, as in IEEE 754.\<close>

fun fgt :: "float64 \<Rightarrow> float64 \<Rightarrow> bool" where
  "fgt NaN _ = False"
| "fgt _ NaN = False"
| "fgt PInf b = (b \<noteq> PInf)"
| "fgt NInf _ = False"
| "fgt (Fin x) PInf = False"
| "fgt (Fin x) NInf = True"
| "fgt (Fin x) (Fin y) = (y < x)"

definition flt :: "float64 \<Rightarrow> float64 \<Rightarrow> bool" where
  "flt a b = fgt b a"

section \<open>The pandas operations on a column\<close>

text \<open>
  A column (a pandas Series) is the list of its cells in row order. Every operation
  below is the pandas method of the same name, restricted to the arguments the
  analyzer passes.
\<close>

type_synonym series = "float64 list"

text \<open>\<^verbatim>\<open>data.diff()\<close>: the first cell has no predecessor and is NaN.\<close>

fun diff_from :: "float64 \<Rightarrow> series \<Rightarrow> series" where
  "diff_from p [] = []"
| "diff_from p (x # xs) = fsub x p # diff_from x xs"

fun diff :: "series \<Rightarrow> series" where
  "diff [] = []"
| "diff (x # xs) = NaN # diff_from x xs"

text \<open>\<^verbatim>\<open>s > c\<close> and \<^verbatim>\<open>s < c\<close> against a scalar: a boolean column.\<close>

definition series_gt :: "series \<Rightarrow> float64 \<Rightarrow> bool list" where
  "series_gt s c = map (\<lambda>v. fgt v c) s"

definition series_lt :: "series \<Rightarrow> float64 \<Rightarrow> bool list" where
  "series_lt s c = map (\<lambda>v. flt v c) s"

text \<open>
  \<^verbatim>\<open>s.where(cond, other)\<close>: the cell is kept where the condition holds and replaced by
  \<open>other\<close> where it does not. A NaN cell fails every comparison, so it is replaced.
\<close>

definition series_where :: "series \<Rightarrow> bool list \<Rightarrow> float64 \<Rightarrow> series" where
  "series_where s cond other = map (\<lambda>(v, c). if c then v else other) (zip s cond)"

definition series_neg :: "series \<Rightarrow> series" where
  "series_neg s = map fneg s"

text \<open>
  \<^verbatim>\<open>s.rolling(window=w).mean()\<close> with an integer window. pandas rejects a negative
  window when the rolling object is built (\<^verbatim>\<open>ValueError: window must be an integer 0
  or greater\<close>). Otherwise row \<open>i\<close> looks at the last \<open>w\<close> cells up to and including
  \<open>i\<close>, counts the cells that are present, and yields their mean when that count
  reaches \<open>min_periods\<close> (by default the window) and is positive, NaN otherwise.
  A NaN cell is missing, and so is an infinite one: pandas replaces the infinities of
  the column by NaN before it computes a window function. pandas updates the sum
  incrementally in float64; the model takes the exact sum of the window.
\<close>

fun is_finite :: "float64 \<Rightarrow> bool" where
  "is_finite (Fin x) = True"
| "is_finite _ = False"

definition fsum :: "series \<Rightarrow> float64" where
  "fsum xs = foldl fadd (Fin 0) xs"

definition window_mean :: "nat \<Rightarrow> series \<Rightarrow> float64" where
  "window_mean minp win =
     (let obs = filter is_finite win
      in if minp \<le> length obs \<and> 0 < length obs
         then fdiv (fsum obs) (Fin (real (length obs)))
         else NaN)"

definition trailing :: "nat \<Rightarrow> nat \<Rightarrow> series \<Rightarrow> series" where
  "trailing w i s = drop (Suc i - w) (take (Suc i) s)"

definition rolling_mean :: "int \<Rightarrow> series \<Rightarrow> error + series" where
  "rolling_mean window s =
     (if window < 0 then Inl ValueError
      else Inr (map (\<lambda>i. window_mean (nat window) (trailing (nat window) i s))
                  [0..<length s]))"

section \<open>calculate_rsi\<close>

text \<open>
  The two averages of lines 40 and 41, then the ratio and the formula of lines 42
  and 43, cell by cell.
\<close>

definition avg_gain :: "series \<Rightarrow> int \<Rightarrow> error + series" where
  "avg_gain data window =
     (let delta = diff data
      in rolling_mean window (series_where delta (series_gt delta (Fin 0)) (Fin 0)))"

definition avg_loss :: "series \<Rightarrow> int \<Rightarrow> error + series" where
  "avg_loss data window =
     (let delta = diff data
      in rolling_mean window
           (series_neg (series_where delta (series_lt delta (Fin 0)) (Fin 0))))"

definition rsi_formula :: "float64 \<Rightarrow> float64" where
  "rsi_formula rs = fsub (Fin 100) (fdiv (Fin 100) (fadd (Fin 1) rs))"

definition calculate_rsi :: "series \<Rightarrow> int \<Rightarrow> error + series" where
  "calculate_rsi data window =
     (case avg_gain data window of
        Inl e \<Rightarrow> Inl e
      | Inr gain \<Rightarrow>
          (case avg_loss data window of
             Inl e \<Rightarrow> Inl e
           | Inr loss \<Rightarrow>
               (let rs = map (\<lambda>(g, l). fdiv g l) (zip gain loss);
                    rsi = map rsi_formula rs
                in Inr rsi)))"

text \<open>A cell that is a finite number and not negative: what a gain or a loss is.\<close>

fun nonneg :: "float64 \<Rightarrow> bool" where
  "nonneg (Fin x) = (0 \<le> x)"
| "nonneg _ = False"

text \<open>Which cells of a result are defined (not NaN); no cell when the call raised.\<close>

definition defined_cells :: "error + series \<Rightarrow> bool list" where
  "defined_cells r = (case r of Inl e \<Rightarrow> [] | Inr s \<Rightarrow> map (\<lambda>v. v \<noteq> NaN) s)"

section \<open>Tables\<close>

text \<open>
  A table (a pandas DataFrame) is its row index and its columns in their order, each
  column a list of cells as long as the index. A label is looked up from the left;
  tables with two columns of one label (for which pandas returns a sub-table) are
  outside the model. The index holds
  the date strings of the raw input at first and timestamps (nanoseconds since the
  epoch, an integer as in pandas) after line 34.
\<close>

record 'i dataframe =
  index :: "'i list"
  columns :: "(string \<times> series) list"

text \<open>\<^verbatim>\<open>df[name]\<close> raises \<^verbatim>\<open>KeyError\<close> for a label the table does not have.\<close>

definition get_col :: "'i dataframe \<Rightarrow> string \<Rightarrow> error + series" where
  "get_col df name =
     (case map_of (columns df) name of None \<Rightarrow> Inl KeyError | Some c \<Rightarrow> Inr c)"

text \<open>
  \<^verbatim>\<open>df[name] = s\<close> replaces the column of that label where it stands, or appends a new
  column.
\<close>

definition set_col :: "'i dataframe \<Rightarrow> string \<Rightarrow> series \<Rightarrow> 'i dataframe" where
  "set_col df name s = df\<lparr>columns := AList.update name s (columns df)\<rparr>"

section \<open>preprocess_data\<close>

text \<open>
  The raw input is the JSON object of the daily time series: date string to record,
  record: field label to string. Python dictionaries keep insertion order and have
  unique keys; they are association lists here, read with \<open>map_of\<close>.

  Two library functions are parameters of the model: \<open>to_float\<close> is Python's
  \<^verbatim>\<open>float\<close> on a string and \<open>to_datetime\<close> is the date parser of \<^verbatim>\<open>pd.to_datetime\<close>;
  \<open>None\<close> means that the string is rejected, which raises \<^verbatim>\<open>ValueError\<close>.
\<close>

type_synonym raw_record = "(string \<times> string) list"
type_synonym raw_series = "(string \<times> raw_record) list"

text \<open>
  \<^verbatim>\<open>pd.DataFrame.from_dict(data, orient='index', dtype=float)\<close>: one row per key, one
  column per field label that occurs in some record, in the order of first occurrence.
  A record without a label gets NaN in that column. With \<^verbatim>\<open>dtype=float\<close> every value is
  converted, and (from pandas 2.0 on) a value that cannot be converted raises instead
  of leaving the column as objects.
\<close>

definition labels :: "raw_series \<Rightarrow> string list" where
  "labels data = rev (remdups (rev (concat (map (\<lambda>(k, r). map fst r) data))))"

definition cell :: "(string \<Rightarrow> float64 option) \<Rightarrow> raw_record \<Rightarrow> string \<Rightarrow> float64 option" where
  "cell to_float r name =
     (case map_of r name of None \<Rightarrow> Some NaN | Some v \<Rightarrow> to_float v)"

definition from_dict :: "(string \<Rightarrow> float64 option) \<Rightarrow> raw_series \<Rightarrow> error + string dataframe" where
  "from_dict to_float data =
     (let names = labels data;
          cols = map (\<lambda>name. those (map (\<lambda>(k, r). cell to_float r name) data)) names
      in case those cols of
           None \<Rightarrow> Inl ValueError
         | Some cs \<Rightarrow> Inr \<lparr>index = map fst data, columns = zip names cs\<rparr>)"

text \<open>\<^verbatim>\<open>df.rename(columns={...})\<close> with the four labels of lines 29 to 32.\<close>

definition rename_label :: "string \<Rightarrow> string" where
  "rename_label name =
     (if name = ''1. open'' then ''Open''
      else if name = ''2. high'' then ''High''
      else if name = ''3. low'' then ''Low''
      else if name = ''4. close'' then ''Close''
      else name)"

definition rename :: "'i dataframe \<Rightarrow> 'i dataframe" where
  "rename df = df\<lparr>columns := map (\<lambda>(name, c). (rename_label name, c)) (columns df)\<rparr>"

text \<open>\<^verbatim>\<open>df.index = pd.to_datetime(df.index)\<close>: every key is parsed, or the call raises.\<close>

definition set_datetime_index ::
  "(string \<Rightarrow> int option) \<Rightarrow> string dataframe \<Rightarrow> error + int dataframe" where
  "set_datetime_index to_datetime df =
     (case those (map to_datetime (index df)) of
        None \<Rightarrow> Inl ValueError
      | Some ts \<Rightarrow> Inr \<lparr>index = ts, columns = columns df\<rparr>)"

text \<open>
  \<^verbatim>\<open>df.sort_index()\<close>: the rows are permuted into ascending index order; every row is
  kept. Rows of equal index stay in their input order here (pandas does not promise
  an order among them).
\<close>

definition sort_index :: "int dataframe \<Rightarrow> int dataframe" where
  "sort_index df =
     (let order = sort_key (\<lambda>i. index df ! i) [0..<length (index df)]
      in \<lparr>index = map (\<lambda>i. index df ! i) order,
          columns = map (\<lambda>(name, c). (name, map (\<lambda>i. c ! i) order)) (columns df)\<rparr>)"

definition preprocess_data ::
  "(string \<Rightarrow> float64 option) \<Rightarrow> (string \<Rightarrow> int option) \<Rightarrow> raw_series \<Rightarrow> error + int dataframe" where
  "preprocess_data to_float to_datetime data =
     (case from_dict to_float data of
        Inl e \<Rightarrow> Inl e
      | Inr df \<Rightarrow>
          (case set_datetime_index to_datetime (rename df) of
             Inl e \<Rightarrow> Inl e
           | Inr df' \<Rightarrow> Inr (sort_index df')))"

section \<open>The analyzer object\<close>

text \<open>
  The attributes \<^verbatim>\<open>analysis\<close> and \<^verbatim>\<open>signals\<close> hold references to table objects, and
  line 55 to 58 change a table in place. The state therefore has a store of table
  objects, addressed by numbers, with \<open>next_ref\<close> the first unused address; an
  attribute is \<open>None\<close> or an address. \<open>self_data\<close> is the parsed JSON response (key to time
  series). A method returns the exception it raised, if any, and the state it leaves.
  A table that is still local when a method raises is not entered in the store.
\<close>

record analyzer =
  store :: "nat \<Rightarrow> int dataframe"
  next_ref :: nat
  self_data :: "(string \<times> raw_series) list option"
  self_analysis :: "nat option"
  self_signals :: "nat option"

definition analyze_currency_strength ::
  "(string \<Rightarrow> float64 option) \<Rightarrow> (string \<Rightarrow> int option) \<Rightarrow> analyzer \<Rightarrow> error option \<times> analyzer" where
  "analyze_currency_strength to_float to_datetime s =
     (case self_data s of
        None \<Rightarrow> (Some TypeError, s)
      | Some response \<Rightarrow>
     (case map_of response ''Time Series FX (Daily)'' of
        None \<Rightarrow> (Some KeyError, s)
      | Some raw \<Rightarrow>
     (case preprocess_data to_float to_datetime raw of
        Inl e \<Rightarrow> (Some e, s)
      | Inr df \<Rightarrow>
     (case get_col df ''Close'' of
        Inl e \<Rightarrow> (Some e, s)
      | Inr close \<Rightarrow>
     (case calculate_rsi close 14 of
        Inl e \<Rightarrow> (Some e, s)
      | Inr rsi \<Rightarrow>
          (None, s\<lparr>store := (store s)(next_ref s := set_col df ''RSI'' rsi),
                   next_ref := Suc (next_ref s),
                   self_analysis := Some (next_ref s)\<rparr>))))))"

section \<open>generate_trade_signals\<close>

text \<open>The three signal values: -1 and 1 as commented in lines 55 and 56, 0 from line 57.\<close>

definition Sell :: float64 where "Sell = Fin (- 1)"
definition Buy :: float64 where "Buy = Fin 1"
definition Neutral :: float64 where "Neutral = Fin 0"

text \<open>
  \<^verbatim>\<open>df.loc[cond, name] = v\<close> with a scalar: in an existing column the cells where
  the condition holds are overwritten; a missing column is created with NaN elsewhere. pandas
  refuses to create a column from a scalar in a table without rows
  (\<^verbatim>\<open>ValueError: cannot set a frame with no defined index and a scalar\<close>).
\<close>

definition loc_assign :: "'i dataframe \<Rightarrow> bool list \<Rightarrow> string \<Rightarrow> float64 \<Rightarrow> error + 'i dataframe" where
  "loc_assign df cond name v =
     (case map_of (columns df) name of
        Some c \<Rightarrow> Inr (set_col df name (map (\<lambda>(m, x). if m then v else x) (zip cond c)))
      | None \<Rightarrow>
          if index df = [] then Inl ValueError
          else Inr (set_col df name (map (\<lambda>m. if m then v else NaN) cond)))"

definition fillna :: "series \<Rightarrow> float64 \<Rightarrow> series" where
  "fillna s v = map (\<lambda>x. if x = NaN then v else x) s"

text \<open>\<^verbatim>\<open>s.shift()\<close>: one row down, NaN in the first row, the last cell dropped.\<close>

fun shift :: "series \<Rightarrow> series" where
  "shift [] = []"
| "shift (x # xs) = NaN # butlast (x # xs)"

text \<open>Lines 55 to 58, each as a function of the table it changes.\<close>

definition mark_sell :: "int dataframe \<Rightarrow> error + int dataframe" where
  "mark_sell df =
     (case get_col df ''RSI'' of
        Inl e \<Rightarrow> Inl e
      | Inr rsi \<Rightarrow> loc_assign df (series_gt rsi (Fin 70)) ''Signal'' (Fin (- 1)))"

definition mark_buy :: "int dataframe \<Rightarrow> error + int dataframe" where
  "mark_buy df =
     (case get_col df ''RSI'' of
        Inl e \<Rightarrow> Inl e
      | Inr rsi \<Rightarrow> loc_assign df (series_lt rsi (Fin 30)) ''Signal'' (Fin 1))"

definition fill_signal :: "int dataframe \<Rightarrow> error + int dataframe" where
  "fill_signal df =
     (case get_col df ''Signal'' of
        Inl e \<Rightarrow> Inl e
      | Inr sg \<Rightarrow> Inr (set_col df ''Signal'' (fillna sg (Fin 0))))"

definition set_position :: "int dataframe \<Rightarrow> error + int dataframe" where
  "set_position df =
     (case get_col df ''Signal'' of
        Inl e \<Rightarrow> Inl e
      | Inr sg \<Rightarrow> Inr (set_col df ''Position'' (shift sg)))"

text \<open>A statement that changes the table object at address \<open>r\<close> in place.\<close>

definition update_object ::
  "nat \<Rightarrow> (int dataframe \<Rightarrow> error + int dataframe) \<Rightarrow> analyzer \<Rightarrow> error option \<times> analyzer" where
  "update_object r f s =
     (case f (store s r) of
        Inl e \<Rightarrow> (Some e, s)
      | Inr d \<Rightarrow> (None, s\<lparr>store := (store s)(r := d)\<rparr>))"

text \<open>Sequencing: an exception ends the method with the state reached so far.\<close>

definition and_then ::
  "error option \<times> analyzer \<Rightarrow> (analyzer \<Rightarrow> error option \<times> analyzer) \<Rightarrow> error option \<times> analyzer" where
  "and_then r k = (case r of (Some e, s) \<Rightarrow> (Some e, s) | (None, s) \<Rightarrow> k s)"

text \<open>
  \<^verbatim>\<open>df = self.analysis.copy()\<close> allocates a new object with the contents of the
  analysis table (\<^verbatim>\<open>AttributeError\<close> when the attribute is still \<^verbatim>\<open>None\<close>); lines 55 to
  58 change that object; line 59 stores its address.
\<close>

definition generate_trade_signals :: "analyzer \<Rightarrow> error option \<times> analyzer" where
  "generate_trade_signals s =
     (case self_analysis s of
        None \<Rightarrow> (Some AttributeError, s)
      | Some a \<Rightarrow>
          (let df = next_ref s;
               s0 = s\<lparr>store := (store s)(df := store s a), next_ref := Suc df\<rparr>
           in and_then (and_then (and_then (and_then (update_object df mark_sell s0)
                (update_object df mark_buy))
                (update_object df fill_signal))
                (update_object df set_position))
                (\<lambda>s'. (None, s'\<lparr>self_signals := Some df\<rparr>))))"

text \<open>Lines 102 and 103 of \<^verbatim>\<open>main\<close>: the analysis, then the signals.\<close>

definition main_pipeline ::
  "(string \<Rightarrow> float64 option) \<Rightarrow> (string \<Rightarrow> int option) \<Rightarrow> analyzer \<Rightarrow> error option \<times> analyzer" where
  "main_pipeline to_float to_datetime s =
     and_then (analyze_currency_strength to_float to_datetime s) generate_trade_signals"

section \<open>Example inputs\<close>

text \<open>
  An analysis table of five days with every kind of RSI cell (undefined, above 70,
  below 30, exactly 70, exactly 30), held by an analyzer at address 0.
\<close>

definition example_analysis :: "int dataframe" where
  "example_analysis =
     \<lparr>index = [1704067200000000000, 1704153600000000000, 1704240000000000000,
               1704326400000000000, 1704412800000000000],
      columns = [(''Open'', [Fin 1.08, Fin 1.09, Fin 1.10, Fin 1.09, Fin 1.10]),
                 (''High'', [Fin 1.10, Fin 1.11, Fin 1.11, Fin 1.11, Fin 1.11]),
                 (''Low'', [Fin 1.08, Fin 1.08, Fin 1.09, Fin 1.08, Fin 1.09]),
                 (''Close'', [Fin 1.09, Fin 1.10, Fin 1.09, Fin 1.10, Fin 1.11]),
                 (''RSI'', [NaN, Fin 80, Fin 20, Fin 70, Fin 30])]\<rparr>"

definition example_state :: analyzer where
  "example_state =
     \<lparr>store = (\<lambda>r. \<lparr>index = [], columns = []\<rparr>)(0 := example_analysis),
      next_ref = 1, self_data = None, self_analysis = Some 0, self_signals = None\<rparr>"

text \<open>
  A fragment of the two library parsers, enough for the examples: the price strings
  and date strings below are read as Python and pandas read them (pandas accepts a
  month or day of one digit after a separator), and every other string is rejected
  here. The theorems hold for every pair of parsers; only the examples use these.
  \<open>init\<close> is the state after \<^verbatim>\<open>__init__\<close>, and \<open>fetched raw\<close> the state after a fetch whose
  response holds the time series \<open>raw\<close>.
\<close>

definition example_to_float :: "string \<Rightarrow> float64 option" where
  "example_to_float v =
     (if v = ''1.08'' then Some (Fin 1.08)
      else if v = ''1.09'' then Some (Fin 1.09)
      else if v = ''1.10'' then Some (Fin 1.10)
      else if v = ''1.11'' then Some (Fin 1.11)
      else None)"

definition example_to_datetime :: "string \<Rightarrow> int option" where
  "example_to_datetime k =
     (if k = ''2024-01-04'' then Some 1704326400000000000
      else if k = ''2024-01-05'' \<or> k = ''2024-1-5'' then Some 1704412800000000000
      else None)"

definition example_record :: "string \<Rightarrow> raw_record" where
  "example_record close =
     [(''1. open'', ''1.08''), (''2. high'', ''1.11''), (''3. low'', ''1.08''),
      (''4. close'', close)]"

definition init :: analyzer where
  "init = \<lparr>store = (\<lambda>r. \<lparr>index = [], columns = []\<rparr>), next_ref = 0,
           self_data = None, self_analysis = None, self_signals = None\<rparr>"

definition fetched :: "raw_series \<Rightarrow> analyzer" where
  "fetched raw = init\<lparr>self_data := Some [(''Time Series FX (Daily)'', raw)]\<rparr>"

section \<open>Facts about the column operations\<close>

lemma length_diff_from: "length (diff_from p xs) = length xs"
  by (induction xs arbitrary: p) simp_all

lemma length_diff: "length (diff xs) = length xs"
  by (cases xs) (simp_all add: length_diff_from)

lemma zip_with_map: "zip xs (map f xs) = map (\<lambda>v. (v, f v)) xs"
  by (induction xs) simp_all

lemma series_where_gt: "series_where d (series_gt d c) other = map (\<lambda>v. if fgt v c then v else other) d"
  by (simp add: series_where_def series_gt_def zip_with_map)

lemma series_where_lt: "series_where d (series_lt d c) other = map (\<lambda>v. if flt v c then v else other) d"
  by (simp add: series_where_def series_lt_def zip_with_map)

lemma rolling_mean_length: "rolling_mean w s = Inr r \<Longrightarrow> length r = length s"
  by (auto simp: rolling_mean_def split: if_splits)

lemma rolling_mean_nth:
  "rolling_mean w s = Inr r \<Longrightarrow> i < length s \<Longrightarrow>
     r ! i = window_mean (nat w) (trailing (nat w) i s)"
  by (auto simp: rolling_mean_def split: if_splits)

lemma rolling_mean_error: "rolling_mean w s = Inl e \<longleftrightarrow> w < 0 \<and> e = ValueError"
  by (auto simp: rolling_mean_def)

lemma avg_gain_length: "avg_gain data w = Inr g \<Longrightarrow> length g = length data"
  by (auto simp: avg_gain_def Let_def series_where_gt length_diff dest!: rolling_mean_length)

lemma avg_loss_length: "avg_loss data w = Inr l \<Longrightarrow> length l = length data"
  by (auto simp: avg_loss_def Let_def series_where_lt series_neg_def length_diff dest!: rolling_mean_length)

lemma avg_gain_total: "0 \<le> w \<Longrightarrow> \<exists>g. avg_gain data w = Inr g"
  by (simp add: avg_gain_def rolling_mean_def Let_def)

lemma avg_loss_total: "0 \<le> w \<Longrightarrow> \<exists>l. avg_loss data w = Inr l"
  by (simp add: avg_loss_def rolling_mean_def Let_def)

lemma avg_gain_negative: "w < 0 \<Longrightarrow> avg_gain data w = Inl ValueError"
  by (simp add: avg_gain_def rolling_mean_def Let_def)

lemma calculate_rsi_length:
  "calculate_rsi data w = Inr rsi \<Longrightarrow> length rsi = length data"
  by (auto simp: calculate_rsi_def Let_def split: sum.splits dest!: avg_gain_length avg_loss_length)

lemma calculate_rsi_nth:
  assumes "avg_gain data w = Inr gain" and "avg_loss data w = Inr loss" and "i < length data"
  shows "\<exists>rsi. calculate_rsi data w = Inr rsi \<and> rsi ! i = rsi_formula (fdiv (gain ! i) (loss ! i))"
  using assms avg_gain_length[OF assms(1)] avg_loss_length[OF assms(2)]
  by (simp add: calculate_rsi_def Let_def)

lemma window_mean_short: "length win < minp \<Longrightarrow> window_mean minp win = NaN"
proof -
  assume "length win < minp"
  moreover have "length (filter is_finite win) \<le> length win" by simp
  ultimately have "\<not> minp \<le> length (filter is_finite win)" by linarith
  then show ?thesis by (simp add: window_mean_def Let_def)
qed

lemma window_mean_empty: "window_mean minp [] = NaN"
  by (simp add: window_mean_def)

lemma length_trailing: "i < length s \<Longrightarrow> length (trailing w i s) = min w (Suc i)"
  by (auto simp: trailing_def)

lemma set_trailing: "set (trailing w i s) \<subseteq> set s"
  unfolding trailing_def by (meson set_drop_subset set_take_subset subset_trans)

lemma rsi_formula_nonneg:
  assumes "nonneg g" and "nonneg l"
  shows "(rsi_formula (fdiv g l) = NaN \<longleftrightarrow> g = Fin 0 \<and> l = Fin 0) \<and>
         (rsi_formula (fdiv g l) = NaN \<or> (\<exists>v. rsi_formula (fdiv g l) = Fin v \<and> 0 \<le> v \<and> v \<le> 100))"
proof -
  from assms obtain a b where ab: "g = Fin a" "0 \<le> a" "l = Fin b" "0 \<le> b"
    by (cases g; cases l) simp_all
  show ?thesis
  proof (cases "b = 0")
    case True
    with ab show ?thesis by (simp add: rsi_formula_def fsub_def)
  next
    case False
    with ab have pos: "0 < 1 + a / b" by (simp add: add_pos_nonneg)
    then have "0 \<le> 100 / (1 + a / b)" by simp
    moreover from pos ab False have "100 / (1 + a / b) \<le> 100"
      by (simp add: divide_le_eq)
    ultimately show ?thesis using ab False pos
      by (simp add: rsi_formula_def fsub_def)
  qed
qed

lemma rsi_formula_infinite: "rsi_formula PInf = Fin 100 \<and> rsi_formula NInf = Fin 100"
  by (simp add: rsi_formula_def fsub_def)

lemma rsi_formula_NaN: "rsi_formula (fdiv NaN x) = NaN"
  by (simp add: rsi_formula_def fsub_def)

lemma avg_gain_nth_short:
  assumes "avg_gain data w = Inr gain" and "i < length data" and "int i < w - 1"
  shows "gain ! i = NaN"
proof -
  let ?raw = "map (\<lambda>v. if fgt v (Fin 0) then v else Fin 0) (diff data)"
  have len: "length ?raw = length data" by (simp add: length_diff)
  from assms(1) have rm: "rolling_mean w ?raw = Inr gain"
    by (simp add: avg_gain_def Let_def series_where_gt)
  have nth: "gain ! i = window_mean (nat w) (trailing (nat w) i ?raw)"
    using rolling_mean_nth[OF rm] assms(2) len by simp
  have "length (trailing (nat w) i ?raw) = min (nat w) (Suc i)"
    using length_trailing[of i ?raw "nat w"] assms(2) len by simp
  with assms(3) have "length (trailing (nat w) i ?raw) < nat w" by simp
  then show ?thesis using nth window_mean_short by simp
qed

lemma rolling_mean_degenerate:
  assumes "w = 0 \<or> int (length s) < w"
  shows "rolling_mean w s = Inr (replicate (length s) NaN)"
proof -
  have "window_mean (nat w) (trailing (nat w) i s) = NaN" if "i < length s" for i
  proof (cases "w = 0")
    case True
    then show ?thesis by (simp add: trailing_def window_mean_empty)
  next
    case False
    with assms have "length (trailing (nat w) i s) < nat w"
      using length_trailing[OF that, of "nat w"] that by simp
    then show ?thesis by (rule window_mean_short)
  qed
  then have "map (\<lambda>i. window_mean (nat w) (trailing (nat w) i s)) [0..<length s]
           = map (\<lambda>i. NaN) [0..<length s]"
    by simp
  also have "\<dots> = replicate (length s) NaN"
    by (simp add: map_replicate_const)
  finally show ?thesis using assms by (auto simp: rolling_mean_def)
qed

lemma calculate_rsi_degenerate:
  assumes "w = 0 \<or> int (length data) < w"
  shows "calculate_rsi data w = Inr (replicate (length data) NaN)"
proof -
  let ?n = "length data"
  have g: "avg_gain data w = Inr (replicate ?n NaN)"
    using rolling_mean_degenerate[of w "series_where (diff data) (series_gt (diff data) (Fin 0)) (Fin 0)"] assms
    by (simp add: avg_gain_def Let_def series_where_gt length_diff)
  have l: "avg_loss data w = Inr (replicate ?n NaN)"
    using rolling_mean_degenerate[of w "series_neg (series_where (diff data) (series_lt (diff data) (Fin 0)) (Fin 0))"] assms
    by (simp add: avg_loss_def Let_def series_where_lt series_neg_def length_diff)
  show ?thesis
    by (simp add: calculate_rsi_def g l Let_def zip_replicate rsi_formula_def fsub_def)
qed

lemmas rsi_eval_defs = calculate_rsi_def avg_gain_def avg_loss_def rolling_mean_def trailing_def
  window_mean_def fsum_def series_where_def series_gt_def series_lt_def series_neg_def fsub_def
  flt_def rsi_formula_def

lemma ex15_defined:
  "defined_cells (calculate_rsi (map Fin [1.10, 1.12, 1.09, 1.15, 1.20, 1.18, 1.25, 1.30,
       1.28, 1.33, 1.35, 1.40, 1.38, 1.42, 1.45]) 14)
   = [False, False, False, False, False, False, False, False, False, False, False, False,
      False, True, True]"
  by (simp add: rsi_eval_defs defined_cells_def upt_conv_Cons)

lemma flat_defined:
  "defined_cells (calculate_rsi (map Fin [1, 1, 1]) 1) = [False, False, False]"
  by (simp add: rsi_eval_defs defined_cells_def upt_conv_Cons)

lemma doubling_averages:
  "avg_gain (map Fin [1, 2, 4]) 2 = Inr [NaN, Fin (1 / 2), Fin (3 / 2)]"
  "avg_loss (map Fin [1, 2, 4]) 2 = Inr [NaN, Fin 0, Fin 0]"
  by (simp_all add: rsi_eval_defs upt_conv_Cons)

lemma rising_averages:
  "avg_gain (map Fin [1, 2, 3]) 2 = Inr [NaN, Fin (1 / 2), Fin 1]"
  "avg_loss (map Fin [1, 2, 3]) 2 = Inr [NaN, Fin 0, Fin 0]"
  by (simp_all add: rsi_eval_defs upt_conv_Cons)

lemma flat_averages:
  "avg_gain (map Fin [1, 1, 1]) 2 = Inr [NaN, Fin 0, Fin 0]"
  "avg_loss (map Fin [1, 1, 1]) 2 = Inr [NaN, Fin 0, Fin 0]"
  by (simp_all add: rsi_eval_defs upt_conv_Cons)

section \<open>Facts about tables and generate_trade_signals\<close>

lemma get_col_set_col:
  "get_col (set_col f name c) name' = (if name = name' then Inr c else get_col f name')"
  by (simp add: get_col_def set_col_def update_conv')

lemma index_set_col: "index (set_col f name c) = index f"
  by (simp add: set_col_def)

lemma set_col_twice: "set_col (set_col f name c) name c' = set_col f name c'"
  by (simp add: set_col_def)

lemma zip_two_maps: "zip (map f xs) (map g xs) = map (\<lambda>v. (f v, g v)) xs"
  by (induction xs) simp_all

lemma signal_cell:
  "(let x = (if flt v (Fin 30) then Fin 1 else if fgt v (Fin 70) then Fin (- 1) else NaN)
    in if x = NaN then Fin 0 else x)
   = (if fgt v (Fin 70) then Sell else if flt v (Fin 30) then Buy else Neutral)"
  by (cases v) (simp_all add: flt_def Sell_def Buy_def Neutral_def)

lemma signal_steps:
  assumes rsi: "get_col f ''RSI'' = Inr rsi"
    and new: "map_of (columns f) ''Signal'' = None"
    and rows: "index f \<noteq> []"
  shows "\<exists>f1 f2 f3.
           mark_sell f = Inr f1 \<and> mark_buy f1 = Inr f2 \<and> fill_signal f2 = Inr f3 \<and>
           set_position f3 =
             Inr (set_col
                   (set_col f ''Signal''
                     (map (\<lambda>v. if fgt v (Fin 70) then Sell else if flt v (Fin 30) then Buy else Neutral) rsi))
                   ''Position''
                   (shift (map (\<lambda>v. if fgt v (Fin 70) then Sell else if flt v (Fin 30) then Buy else Neutral) rsi)))"
proof -
  let ?c1 = "map (\<lambda>v. if fgt v (Fin 70) then Fin (- 1) else NaN) rsi"
  let ?c2 = "map (\<lambda>v. if flt v (Fin 30) then Fin 1 else if fgt v (Fin 70) then Fin (- 1) else NaN) rsi"
  let ?sg = "map (\<lambda>v. if fgt v (Fin 70) then Sell else if flt v (Fin 30) then Buy else Neutral) rsi"
  have s1: "mark_sell f = Inr (set_col f ''Signal'' ?c1)"
    using rsi new rows by (simp add: mark_sell_def loc_assign_def series_gt_def o_def)
  have rsi1: "get_col (set_col f ''Signal'' ?c1) ''RSI'' = Inr rsi"
    using rsi by (simp add: get_col_set_col)
  have sig1: "map_of (columns (set_col f ''Signal'' ?c1)) ''Signal'' = Some ?c1"
    by (simp add: set_col_def update_conv')
  have s2: "mark_buy (set_col f ''Signal'' ?c1) = Inr (set_col f ''Signal'' ?c2)"
    unfolding mark_buy_def loc_assign_def rsi1 sig1
    by (simp add: series_lt_def zip_two_maps set_col_twice o_def)
  have "fillna ?c2 (Fin 0) = ?sg"
    using signal_cell by (simp add: fillna_def Let_def)
  then have s3: "fill_signal (set_col f ''Signal'' ?c2) = Inr (set_col f ''Signal'' ?sg)"
    by (simp add: fill_signal_def get_col_set_col set_col_twice)
  have s4: "set_position (set_col f ''Signal'' ?sg)
            = Inr (set_col (set_col f ''Signal'' ?sg) ''Position'' (shift ?sg))"
    by (simp add: set_position_def get_col_set_col)
  from s1 s2 s3 s4 show ?thesis by blast
qed

lemma and_then_None: "and_then (None, s) k = k s"
  by (simp add: and_then_def)

lemma and_then_Some: "and_then (Some e, s) k = (Some e, s)"
  by (simp add: and_then_def)

lemma update_object_Inr:
  "f (store s r) = Inr d \<Longrightarrow> update_object r f s = (None, s\<lparr>store := (store s)(r := d)\<rparr>)"
  by (simp add: update_object_def)

lemma generate_trade_signals_steps:
  assumes "self_analysis s = Some a"
    and "mark_sell (store s a) = Inr f1" and "mark_buy f1 = Inr f2"
    and "fill_signal f2 = Inr f3" and "set_position f3 = Inr f4"
  shows "generate_trade_signals s =
           (None, s\<lparr>store := (store s)(next_ref s := f4), next_ref := Suc (next_ref s),
                   self_signals := Some (next_ref s)\<rparr>)"
  using assms
  by (simp add: generate_trade_signals_def Let_def update_object_def and_then_def)

lemma update_object_frame:
  "update_object r f s = (e, s') \<Longrightarrow>
     self_analysis s' = self_analysis s \<and> self_data s' = self_data s \<and>
     self_signals s' = self_signals s \<and> next_ref s' = next_ref s \<and>
     (\<forall>q. q \<noteq> r \<longrightarrow> store s' q = store s q)"
  by (auto simp: update_object_def split: sum.splits)

lemma loc_assign_shape: "loc_assign f cond name v = Inr f' \<Longrightarrow> \<exists>c. f' = set_col f name c"
  by (auto simp: loc_assign_def split: option.splits if_splits)

lemma mark_sell_shape: "mark_sell f = Inr f' \<Longrightarrow> \<exists>c. f' = set_col f ''Signal'' c"
  by (auto simp: mark_sell_def split: sum.splits dest: loc_assign_shape)

lemma mark_buy_shape: "mark_buy f = Inr f' \<Longrightarrow> \<exists>c. f' = set_col f ''Signal'' c"
  by (auto simp: mark_buy_def split: sum.splits dest: loc_assign_shape)

lemma fill_signal_shape: "fill_signal f = Inr f' \<Longrightarrow> \<exists>c. f' = set_col f ''Signal'' c"
  by (auto simp: fill_signal_def split: sum.splits)

lemma set_position_shape: "set_position f = Inr f' \<Longrightarrow> \<exists>c. f' = set_col f ''Position'' c"
  by (auto simp: set_position_def split: sum.splits)

lemma generate_trade_signals_outcome:
  assumes a: "self_analysis s = Some a"
  shows "(\<exists>e F. generate_trade_signals s =
              (Some e, s\<lparr>store := (store s)(next_ref s := F), next_ref := Suc (next_ref s)\<rparr>)) \<or>
         (\<exists>sg pos. generate_trade_signals s =
              (None, s\<lparr>store := (store s)(next_ref s :=
                           set_col (set_col (store s a) ''Signal'' sg) ''Position'' pos),
                       next_ref := Suc (next_ref s), self_signals := Some (next_ref s)\<rparr>))"
proof (cases "mark_sell (store s a)")
  case (Inl e)
  then show ?thesis using a
    by (intro disjI1 exI[of _ e] exI[of _ "store s a"])
       (simp add: generate_trade_signals_def Let_def update_object_def and_then_def)
next
  case f1: (Inr f1)
  show ?thesis
  proof (cases "mark_buy f1")
    case (Inl e)
    then show ?thesis using a f1
      by (intro disjI1 exI[of _ e] exI[of _ f1])
         (simp add: generate_trade_signals_def Let_def update_object_def and_then_def)
  next
    case f2: (Inr f2)
    show ?thesis
    proof (cases "fill_signal f2")
      case (Inl e)
      then show ?thesis using a f1 f2
        by (intro disjI1 exI[of _ e] exI[of _ f2])
           (simp add: generate_trade_signals_def Let_def update_object_def and_then_def)
    next
      case f3: (Inr f3)
      show ?thesis
      proof (cases "set_position f3")
        case (Inl e)
        then show ?thesis using a f1 f2 f3
          by (intro disjI1 exI[of _ e] exI[of _ f3])
             (simp add: generate_trade_signals_def Let_def update_object_def and_then_def)
      next
        case f4: (Inr f4)
        obtain c where "f3 = set_col (store s a) ''Signal'' c"
          using mark_sell_shape[OF f1] mark_buy_shape[OF f2] fill_signal_shape[OF f3]
          by (auto simp: set_col_twice)
        with set_position_shape[OF f4] obtain p where
          "f4 = set_col (set_col (store s a) ''Signal'' c) ''Position'' p" by auto
        with generate_trade_signals_steps[OF a f1 f2 f3 f4] show ?thesis by blast
      qed
    qed
  qed
qed

lemma length_shift: "length (shift xs) = length xs"
  by (cases xs) (simp_all del: butlast.simps)

lemma shift_first: "xs \<noteq> [] \<Longrightarrow> shift xs ! 0 = NaN"
  by (cases xs) simp_all

lemma shift_later: "1 \<le> i \<Longrightarrow> i < length xs \<Longrightarrow> shift xs ! i = xs ! (i - 1)"
proof (cases xs)
  case Nil
  assume "i < length xs"
  with Nil show ?thesis by simp
next
  case (Cons x ys)
  assume "1 \<le> i" "i < length xs"
  then obtain j where j: "i = Suc j" "j < length ys"
    using Cons by (cases i) simp_all
  then have "j < length (butlast (x # ys))"
    by (simp del: butlast.simps)
  then have "butlast (x # ys) ! j = (x # ys) ! j"
    by (rule nth_butlast)
  with Cons j show ?thesis by (simp del: butlast.simps)
qed

lemma generate_trade_signals_table:
  assumes a: "self_analysis s = Some a"
    and rsi: "get_col (store s a) ''RSI'' = Inr rsi"
    and new: "map_of (columns (store s a)) ''Signal'' = None"
    and rows: "index (store s a) \<noteq> []"
  shows "generate_trade_signals s =
           (None, s\<lparr>store := (store s)(next_ref s :=
                       set_col
                         (set_col (store s a) ''Signal''
                           (map (\<lambda>v. if fgt v (Fin 70) then Sell
                                      else if flt v (Fin 30) then Buy else Neutral) rsi))
                         ''Position''
                         (shift (map (\<lambda>v. if fgt v (Fin 70) then Sell
                                      else if flt v (Fin 30) then Buy else Neutral) rsi))),
                    next_ref := Suc (next_ref s), self_signals := Some (next_ref s)\<rparr>)"
proof -
  from signal_steps[OF rsi new rows] obtain f1 f2 f3 where
    "mark_sell (store s a) = Inr f1" "mark_buy f1 = Inr f2" "fill_signal f2 = Inr f3"
    "set_position f3 =
       Inr (set_col
             (set_col (store s a) ''Signal''
               (map (\<lambda>v. if fgt v (Fin 70) then Sell else if flt v (Fin 30) then Buy else Neutral) rsi))
             ''Position''
             (shift (map (\<lambda>v. if fgt v (Fin 70) then Sell else if flt v (Fin 30) then Buy else Neutral) rsi)))"
    by blast
  then show ?thesis by (rule generate_trade_signals_steps[OF a])
qed

section \<open>Facts about preprocess_data\<close>

lemma those_None_iff: "those xs = None \<longleftrightarrow> None \<in> set xs"
  by (induction xs) (auto split: option.splits)


lemma set_labels: "set (labels data) = (\<Union>(k, r) \<in> set data. fst ` set r)"
  by (auto simp: labels_def)

lemma from_dict_rejects:
  assumes "(k, r) \<in> set data" and "map_of r name = Some v" and "to_float v = None"
  shows "from_dict to_float data = Inl ValueError"
proof -
  have "(name, v) \<in> set r" using assms(2) by (rule map_of_SomeD)
  then have name: "name \<in> set (labels data)"
    using assms(1) by (force simp: set_labels)
  have "cell to_float r name = None"
    using assms(2,3) by (simp add: cell_def)
  then have "None \<in> set (map (\<lambda>(k, r). cell to_float r name) data)"
    using assms(1) by force
  then have "those (map (\<lambda>(k, r). cell to_float r name) data) = None"
    by (simp only: those_None_iff)
  then have "None \<in> set (map (\<lambda>name. those (map (\<lambda>(k, r). cell to_float r name) data))
      (labels data))"
    using name by force
  then have "those (map (\<lambda>name. those (map (\<lambda>(k, r). cell to_float r name) data))
      (labels data)) = None"
    by (simp only: those_None_iff)
  then show ?thesis by (simp add: from_dict_def Let_def)
qed





lemmas preprocess_eval_defs = preprocess_data_def from_dict_def labels_def cell_def rename_def
  rename_label_def set_datetime_index_def sort_index_def example_to_float_def
  example_to_datetime_def example_record_def

lemmas pipeline_eval_defs = main_pipeline_def analyze_currency_strength_def and_then_def
  fetched_def init_def get_col_def

section \<open>The claims about calculate_rsi\<close>

text \<open>
  Claim C1, as the code has it. The NaN that \<^verbatim>\<open>diff\<close> puts in row 0 fails both
  comparisons and is replaced by 0 in the gains and in the losses, so a window of \<open>w\<close>
  cells is complete from row \<open>w - 1\<close> on, one row earlier than the claim says. For every
  column and window the method accepts: the RSI is undefined at every row \<open>i < w - 1\<close>;
  and at a row whose two window averages are numbers that are not negative, the RSI is
  undefined exactly when both averages are 0, and a number otherwise. For the 15
  prices of the specification and window 14 it is defined at rows 13 and 14 and
  nowhere else.
\<close>

theorem rsi_defined_from_window_minus_one:
  "(\<forall>data w gain loss i.
      avg_gain data w = Inr gain \<and> avg_loss data w = Inr loss \<and> i < length data \<longrightarrow>
      (\<exists>rsi. calculate_rsi data w = Inr rsi \<and>
         (int i < w - 1 \<longrightarrow> rsi ! i = NaN) \<and>
         (nonneg (gain ! i) \<and> nonneg (loss ! i) \<longrightarrow>
            (rsi ! i = NaN \<longleftrightarrow> gain ! i = Fin 0 \<and> loss ! i = Fin 0) \<and>
            (rsi ! i = NaN \<or> (\<exists>v. rsi ! i = Fin v))))) \<and>
   defined_cells (calculate_rsi (map Fin [1.10, 1.12, 1.09, 1.15, 1.20, 1.18, 1.25, 1.30,
       1.28, 1.33, 1.35, 1.40, 1.38, 1.42, 1.45]) 14)
   = [False, False, False, False, False, False, False, False, False, False, False, False,
      False, True, True]"
proof (intro conjI allI impI)
  fix data :: series and w :: int and gain loss :: series and i :: nat
  assume a: "avg_gain data w = Inr gain \<and> avg_loss data w = Inr loss \<and> i < length data"
  then have g: "avg_gain data w = Inr gain" and l: "avg_loss data w = Inr loss"
    and i: "i < length data" by simp_all
  obtain rsi where r: "calculate_rsi data w = Inr rsi"
    and nth: "rsi ! i = rsi_formula (fdiv (gain ! i) (loss ! i))"
    using calculate_rsi_nth[OF g l i] by blast
  have early: "rsi ! i = NaN" if "int i < w - 1"
    using avg_gain_nth_short[OF g i that] nth rsi_formula_NaN by simp
  have late: "(rsi ! i = NaN \<longleftrightarrow> gain ! i = Fin 0 \<and> loss ! i = Fin 0) \<and>
      (rsi ! i = NaN \<or> (\<exists>v. rsi ! i = Fin v))"
    if "nonneg (gain ! i) \<and> nonneg (loss ! i)"
  proof -
    from that have "nonneg (gain ! i)" "nonneg (loss ! i)" by simp_all
    from rsi_formula_nonneg[OF this] show ?thesis unfolding nth by blast
  qed
  from r early late
  show "\<exists>rsi. calculate_rsi data w = Inr rsi \<and>
         (int i < w - 1 \<longrightarrow> rsi ! i = NaN) \<and>
         (nonneg (gain ! i) \<and> nonneg (loss ! i) \<longrightarrow>
            (rsi ! i = NaN \<longleftrightarrow> gain ! i = Fin 0 \<and> loss ! i = Fin 0) \<and>
            (rsi ! i = NaN \<or> (\<exists>v. rsi ! i = Fin v)))"
    by blast
next
  show "defined_cells (calculate_rsi (map Fin [1.10, 1.12, 1.09, 1.15, 1.20, 1.18, 1.25, 1.30,
       1.28, 1.33, 1.35, 1.40, 1.38, 1.42, 1.45]) 14)
   = [False, False, False, False, False, False, False, False, False, False, False, False,
      False, True, True]"
    by (rule ex15_defined)
qed

theorem rsi_defined_from_window_minus_one_witness:
  "avg_gain (map Fin [1, 2, 4]) 2 = Inr [NaN, Fin (1 / 2), Fin (3 / 2)] \<and>
   avg_loss (map Fin [1, 2, 4]) 2 = Inr [NaN, Fin 0, Fin 0] \<and>
   nonneg (Fin (1 / 2)) \<and> nonneg (Fin 0) \<and>
   (\<exists>rsi. calculate_rsi (map Fin [1, 2, 4]) 2 = Inr rsi \<and> rsi ! 0 = NaN \<and> rsi ! 1 \<noteq> NaN)"
proof -
  note t = rsi_defined_from_window_minus_one[THEN conjunct1, rule_format,
      of "map Fin [1, 2, 4]" 2 "[NaN, Fin (1 / 2), Fin (3 / 2)]" "[NaN, Fin 0, Fin 0]"]
  from t[of 0] t[of 1] doubling_averages show ?thesis by auto
qed

text \<open>
  The claim C1 itself fails twice: on the 15 prices with window 14 the RSI is defined at
  row 13 already, below the window, and on a flat series it is undefined at every row
  at or beyond the window.
\<close>

theorem rsi_undefined_below_window_counterexample:
  "defined_cells (calculate_rsi (map Fin [1.10, 1.12, 1.09, 1.15, 1.20, 1.18, 1.25, 1.30,
       1.28, 1.33, 1.35, 1.40, 1.38, 1.42, 1.45]) 14) ! 13 = True \<and>
   defined_cells (calculate_rsi (map Fin [1, 1, 1]) 1) = [False, False, False]"
  using ex15_defined flat_defined by simp

text \<open>
  Claim C2. At an index where the average loss of the trailing window is 0, the RSI is
  exactly 100 when the average gain is strictly positive, and undefined (NaN) when the
  average gain is 0 as well. This holds for every column and window the method
  accepts, not only for finite prices.
\<close>

theorem rsi_at_zero_average_loss:
  assumes "avg_gain data w = Inr gain" and "avg_loss data w = Inr loss"
    and "i < length data" and "loss ! i = Fin 0"
  shows "\<exists>rsi. calculate_rsi data w = Inr rsi \<and>
           (fgt (gain ! i) (Fin 0) \<longrightarrow> rsi ! i = Fin 100) \<and>
           (gain ! i = Fin 0 \<longrightarrow> rsi ! i = NaN)"
proof -
  obtain rsi where r: "calculate_rsi data w = Inr rsi"
    and nth: "rsi ! i = rsi_formula (fdiv (gain ! i) (loss ! i))"
    using calculate_rsi_nth[OF assms(1,2,3)] by blast
  have "rsi ! i = Fin 100" if "fgt (gain ! i) (Fin 0)"
    using that nth assms(4) by (cases "gain ! i") (simp_all add: rsi_formula_def fsub_def)
  moreover have "rsi ! i = NaN" if "gain ! i = Fin 0"
    using that nth assms(4) by (simp add: rsi_formula_def fsub_def)
  ultimately show ?thesis using r by blast
qed

theorem rsi_at_zero_average_loss_witness:
  "avg_gain (map Fin [1, 2, 3]) 2 = Inr [NaN, Fin (1 / 2), Fin 1] \<and>
   avg_loss (map Fin [1, 2, 3]) 2 = Inr [NaN, Fin 0, Fin 0] \<and>
   (\<exists>rsi. calculate_rsi (map Fin [1, 2, 3]) 2 = Inr rsi \<and> rsi ! 2 = Fin 100) \<and>
   avg_gain (map Fin [1, 1, 1]) 2 = Inr [NaN, Fin 0, Fin 0] \<and>
   avg_loss (map Fin [1, 1, 1]) 2 = Inr [NaN, Fin 0, Fin 0] \<and>
   (\<exists>rsi. calculate_rsi (map Fin [1, 1, 1]) 2 = Inr rsi \<and> rsi ! 2 = NaN)"
  using rsi_at_zero_average_loss[OF rising_averages, of 2]
    rsi_at_zero_average_loss[OF flat_averages, of 2]
    rising_averages flat_averages
  by simp

text \<open>
  Claim C8, as the code has it. \<^verbatim>\<open>calculate_rsi\<close> has no window check of its own and
  inherits two different behaviours from pandas: a negative window raises
  \<^verbatim>\<open>ValueError\<close>, every other window returns a column of the input's length, and that
  column is undefined throughout when the window is 0 or larger than the series.
\<close>

theorem calculate_rsi_window_policy:
  "(w < 0 \<longrightarrow> calculate_rsi data w = Inl ValueError) \<and>
   (0 \<le> w \<longrightarrow> (\<exists>rsi. calculate_rsi data w = Inr rsi \<and> length rsi = length data)) \<and>
   (w = 0 \<or> int (length data) < w \<longrightarrow>
      calculate_rsi data w = Inr (replicate (length data) NaN))"
proof (intro conjI impI)
  assume "w < 0"
  then show "calculate_rsi data w = Inl ValueError"
    by (simp add: calculate_rsi_def avg_gain_negative)
next
  assume w: "0 \<le> w"
  obtain gain loss where "avg_gain data w = Inr gain" "avg_loss data w = Inr loss"
    using avg_gain_total[OF w] avg_loss_total[OF w] by blast
  then obtain rsi where r: "calculate_rsi data w = Inr rsi"
    by (simp add: calculate_rsi_def Let_def)
  with calculate_rsi_length[OF r]
  show "\<exists>rsi. calculate_rsi data w = Inr rsi \<and> length rsi = length data" by simp
next
  assume "w = 0 \<or> int (length data) < w"
  then show "calculate_rsi data w = Inr (replicate (length data) NaN)"
    by (rule calculate_rsi_degenerate)
qed

theorem calculate_rsi_window_policy_witness:
  "((-1::int) < 0 \<and> calculate_rsi (map Fin [1, 2]) (-1) = Inl ValueError) \<and>
   ((0::int) \<le> 3 \<and> int (length (map Fin [1, 2])) < 3 \<and>
      calculate_rsi (map Fin [1, 2]) 3 = Inr [NaN, NaN])"
  using calculate_rsi_window_policy[of "-1" "map Fin [1, 2]"]
    calculate_rsi_window_policy[of 3 "map Fin [1, 2]"]
  by (simp add: numeral_2_eq_2)

text \<open>
  The claim C8 itself fails: of the windows the specification calls invalid, \<open>-1\<close>
  raises, \<open>0\<close> and a window beyond the length give an all-undefined column, and a window
  equal to the length (here 2) is not treated as invalid at all.
\<close>

theorem invalid_window_policy_counterexample:
  "calculate_rsi (map Fin [1, 2]) (-1) = Inl ValueError \<and>
   calculate_rsi (map Fin [1, 2]) 0 = Inr [NaN, NaN] \<and>
   calculate_rsi (map Fin [1, 2]) 3 = Inr [NaN, NaN] \<and>
   calculate_rsi (map Fin [1, 2]) 2 = Inr [NaN, Fin 100]"
  by (simp add: rsi_eval_defs upt_conv_Cons)

section \<open>The claims about generate_trade_signals\<close>

text \<open>
  Claim C4, as the code has it. On an analysis table that has an RSI column and no
  Signal column yet (the tables \<^verbatim>\<open>analyze_currency_strength\<close> builds from records of
  open, high, low and close), the method succeeds, and the signal of row \<open>i\<close> is Sell
  when the RSI is above 70, Buy when it is below 30 and Neutral in every other case; an
  undefined RSI and an RSI of exactly 70 or exactly 30 give Neutral. Lines 55 to 57
  only write where a comparison holds or the cell is NaN, so a Signal column that the
  table already has keeps its other cells.
\<close>

theorem signal_follows_rsi_thresholds:
  assumes "self_analysis s = Some a"
    and "get_col (store s a) ''RSI'' = Inr rsi"
    and "length (index (store s a)) = length rsi"
    and "map_of (columns (store s a)) ''Signal'' = None"
    and "i < length rsi"
  shows "\<exists>s' sg. generate_trade_signals s = (None, s') \<and>
           self_signals s' = Some (next_ref s) \<and>
           get_col (store s' (next_ref s)) ''Signal'' = Inr sg \<and>
           length sg = length rsi \<and>
           sg ! i = (if fgt (rsi ! i) (Fin 70) then Sell
                     else if flt (rsi ! i) (Fin 30) then Buy else Neutral) \<and>
           (rsi ! i = NaN \<or> rsi ! i = Fin 70 \<or> rsi ! i = Fin 30 \<longrightarrow> sg ! i = Neutral)"
proof -
  from assms(3,5) have rows: "index (store s a) \<noteq> []" by auto
  show ?thesis
    unfolding generate_trade_signals_table[OF assms(1,2,4) rows]
    using assms(5) by (auto simp: get_col_set_col flt_def)
qed

theorem signal_follows_rsi_thresholds_witness:
  "self_analysis example_state = Some 0 \<and>
   get_col (store example_state 0) ''RSI'' = Inr [NaN, Fin 80, Fin 20, Fin 70, Fin 30] \<and>
   length (index (store example_state 0)) = length [NaN, Fin 80, Fin 20, Fin 70, Fin 30] \<and>
   map_of (columns (store example_state 0)) ''Signal'' = None \<and>
   (\<exists>s' sg. generate_trade_signals example_state = (None, s') \<and>
      get_col (store s' (next_ref example_state)) ''Signal'' = Inr sg \<and>
      sg ! 1 = Sell \<and> sg ! 3 = Neutral)"
proof -
  have h: "self_analysis example_state = Some 0"
    "get_col (store example_state 0) ''RSI'' = Inr [NaN, Fin 80, Fin 20, Fin 70, Fin 30]"
    "length (index (store example_state 0)) = length [NaN, Fin 80, Fin 20, Fin 70, Fin 30]"
    "map_of (columns (store example_state 0)) ''Signal'' = None"
    by (simp_all add: example_state_def example_analysis_def get_col_def)
  from signal_follows_rsi_thresholds[OF h, of 1] signal_follows_rsi_thresholds[OF h, of 3]
  show ?thesis using h by auto
qed

text \<open>
  The claim C4 itself fails when the raw records carry a field named Signal, which
  line 27 turns into a column like any other: the pipeline accepts the input below,
  the RSI of its single row is undefined, and the signal of that row is the 1.08 of the
  record, not Neutral.
\<close>

theorem signal_column_counterexample:
  "fst (main_pipeline example_to_float example_to_datetime
          (fetched [(''2024-01-04'', example_record ''1.10'' @ [(''Signal'', ''1.08'')])]))
     = None \<and>
   get_col (store (snd (main_pipeline example_to_float example_to_datetime
          (fetched [(''2024-01-04'', example_record ''1.10'' @ [(''Signal'', ''1.08'')])]))) 1)
      ''RSI'' = Inr [NaN] \<and>
   get_col (store (snd (main_pipeline example_to_float example_to_datetime
          (fetched [(''2024-01-04'', example_record ''1.10'' @ [(''Signal'', ''1.08'')])]))) 1)
      ''Signal'' = Inr [Fin 1.08] \<and>
   Fin 1.08 \<noteq> Neutral"
  by (simp add: pipeline_eval_defs preprocess_eval_defs rsi_eval_defs
      generate_trade_signals_def Let_def update_object_def mark_sell_def mark_buy_def
      fill_signal_def set_position_def loc_assign_def set_col_def series_gt_def fillna_def
      Neutral_def upt_conv_Cons)

text \<open>
  Claim C5, as the code has it. Signal and Position have the length of the RSI column
  and \<open>Position[i] = Signal[i - 1]\<close> for \<open>i \<ge> 1\<close>. Line 58 shifts without a fill value
  and nothing fills the Position column afterwards, so \<open>Position[0]\<close> is undefined (NaN),
  not Neutral.
\<close>

theorem position_is_lagged_signal:
  assumes "self_analysis s = Some a"
    and "get_col (store s a) ''RSI'' = Inr rsi"
    and "length (index (store s a)) = length rsi"
    and "map_of (columns (store s a)) ''Signal'' = None"
    and "rsi \<noteq> []"
  shows "\<exists>s' sg pos. generate_trade_signals s = (None, s') \<and>
           get_col (store s' (next_ref s)) ''Signal'' = Inr sg \<and>
           get_col (store s' (next_ref s)) ''Position'' = Inr pos \<and>
           length sg = length rsi \<and> length pos = length rsi \<and>
           pos ! 0 = NaN \<and>
           (\<forall>i. 1 \<le> i \<and> i < length rsi \<longrightarrow> pos ! i = sg ! (i - 1))"
proof -
  from assms(3,5) have rows: "index (store s a) \<noteq> []" by auto
  show ?thesis
    unfolding generate_trade_signals_table[OF assms(1,2,4) rows]
    using assms(5) by (simp add: get_col_set_col length_shift shift_first shift_later)
qed

theorem position_is_lagged_signal_witness:
  "self_analysis example_state = Some 0 \<and>
   get_col (store example_state 0) ''RSI'' = Inr [NaN, Fin 80, Fin 20, Fin 70, Fin 30] \<and>
   length (index (store example_state 0)) = length [NaN, Fin 80, Fin 20, Fin 70, Fin 30] \<and>
   map_of (columns (store example_state 0)) ''Signal'' = None \<and>
   [NaN, Fin 80, Fin 20, Fin 70, Fin 30] \<noteq> [] \<and>
   (\<exists>s' sg pos. generate_trade_signals example_state = (None, s') \<and>
      get_col (store s' (next_ref example_state)) ''Signal'' = Inr sg \<and>
      get_col (store s' (next_ref example_state)) ''Position'' = Inr pos \<and>
      length pos = 5 \<and> pos ! 0 = NaN \<and> pos ! 2 = sg ! 1)"
proof -
  have h: "self_analysis example_state = Some 0"
    "get_col (store example_state 0) ''RSI'' = Inr [NaN, Fin 80, Fin 20, Fin 70, Fin 30]"
    "length (index (store example_state 0)) = length [NaN, Fin 80, Fin 20, Fin 70, Fin 30]"
    "map_of (columns (store example_state 0)) ''Signal'' = None"
    "[NaN, Fin 80, Fin 20, Fin 70, Fin 30] \<noteq> []"
    by (simp_all add: example_state_def example_analysis_def get_col_def)
  from position_is_lagged_signal[OF h] show ?thesis using h by fastforce
qed

text \<open>
  The claim C5 itself fails in row 0: on the example table the Position column starts
  with NaN, which is not the Neutral value 0.
\<close>

theorem first_position_counterexample:
  "fst (generate_trade_signals example_state) = None \<and>
   get_col (store (snd (generate_trade_signals example_state)) 1) ''Signal''
     = Inr [Neutral, Sell, Buy, Neutral, Neutral] \<and>
   get_col (store (snd (generate_trade_signals example_state)) 1) ''Position''
     = Inr [NaN, Neutral, Sell, Buy, Neutral] \<and>
   NaN \<noteq> Neutral"
  by (simp add: generate_trade_signals_def Let_def update_object_def and_then_def
      example_state_def example_analysis_def mark_sell_def mark_buy_def fill_signal_def
      set_position_def loc_assign_def get_col_def set_col_def series_gt_def series_lt_def
      fillna_def flt_def Sell_def Buy_def Neutral_def)

text \<open>
  Claim C10. \<^verbatim>\<open>generate_trade_signals\<close> works on a copy: whether it returns or raises,
  the \<^verbatim>\<open>analysis\<close> attribute still refers to the same object, that object and every
  other object that existed before the call are unchanged, and on return the
  \<^verbatim>\<open>signals\<close> attribute refers to a new object with the index and columns of the
  analysis table plus Signal and Position.
\<close>

theorem generate_trade_signals_keeps_analysis:
  assumes "self_analysis s = Some a" and "a < next_ref s"
  shows "\<exists>e s'. generate_trade_signals s = (e, s') \<and>
           self_analysis s' = Some a \<and> store s' a = store s a \<and>
           (\<forall>r < next_ref s. store s' r = store s r) \<and>
           (e = None \<longrightarrow>
              self_signals s' = Some (next_ref s) \<and>
              index (store s' (next_ref s)) = index (store s a) \<and>
              (\<exists>sg pos. columns (store s' (next_ref s)) =
                  AList.update ''Position'' pos (AList.update ''Signal'' sg (columns (store s a)))))"
  using generate_trade_signals_outcome[OF assms(1)] assms
  by (fastforce simp: set_col_def)

theorem generate_trade_signals_keeps_analysis_witness:
  "self_analysis example_state = Some 0 \<and> 0 < next_ref example_state \<and>
   (\<exists>e s'. generate_trade_signals example_state = (e, s') \<and>
      self_analysis s' = Some 0 \<and> store s' 0 = example_analysis \<and>
      (\<forall>r < next_ref example_state. store s' r = store example_state r))"
  using generate_trade_signals_keeps_analysis[of example_state 0]
  by (auto simp: example_state_def)

section \<open>The claims about preprocess_data and the pipeline\<close>

text \<open>
  Claim C6, as the code has it. With an empty time series the table has no rows and
  no columns, so the lookup of the Close column in line 49 raises \<^verbatim>\<open>KeyError\<close>; the
  pipeline stops there and the analyzer is left exactly as it was, with no analysis
  and no signals stored. The code has no error of its own for the empty input.
\<close>

theorem empty_input_raises_key_error:
  assumes "self_data s = Some response"
    and "map_of response ''Time Series FX (Daily)'' = Some []"
  shows "main_pipeline to_float to_datetime s = (Some KeyError, s)"
  using assms
  by (simp add: main_pipeline_def analyze_currency_strength_def preprocess_data_def and_then_def
      from_dict_def labels_def rename_def set_datetime_index_def sort_index_def get_col_def)

theorem empty_input_raises_key_error_witness:
  "self_data (fetched []) = Some [(''Time Series FX (Daily)'', [])] \<and>
   map_of [(''Time Series FX (Daily)'', [])] ''Time Series FX (Daily)'' = Some ([] :: raw_series) \<and>
   main_pipeline example_to_float example_to_datetime (fetched []) = (Some KeyError, fetched [])"
proof -
  have h: "self_data (fetched []) = Some [(''Time Series FX (Daily)'', [])]"
    "map_of [(''Time Series FX (Daily)'', [])] ''Time Series FX (Daily)'' = Some ([] :: raw_series)"
    by (simp_all add: fetched_def init_def)
  from empty_input_raises_key_error[OF h] show ?thesis using h by simp
qed

text \<open>
  The claim C6 itself fails in its "distinct error": the empty input and a non-empty
  input whose records have no close field end in the same \<^verbatim>\<open>KeyError\<close>.
\<close>

theorem empty_series_error_counterexample:
  "fst (main_pipeline example_to_float example_to_datetime (fetched [])) = Some KeyError \<and>
   fst (main_pipeline example_to_float example_to_datetime
          (fetched [(''2024-01-05'', [(''1. open'', ''1.08'')])])) = Some KeyError"
  by (simp add: pipeline_eval_defs preprocess_eval_defs upt_conv_Cons)

text \<open>
  Claim C7. When some record of the raw input has a field whose value does not parse
  as a number, the pipeline raises (the \<^verbatim>\<open>ValueError\<close> of the conversion in line 27)
  and the analyzer is left exactly as it was: no analysis table and no signals table
  is stored.
\<close>

theorem malformed_price_aborts_pipeline:
  assumes "self_data s = Some response"
    and "map_of response ''Time Series FX (Daily)'' = Some raw"
    and "(k, r) \<in> set raw" and "map_of r name = Some v" and "to_float v = None"
  shows "main_pipeline to_float to_datetime s = (Some ValueError, s)"
  using assms(1,2) from_dict_rejects[where to_float = to_float, OF assms(3,4,5)]
  by (simp add: main_pipeline_def analyze_currency_strength_def preprocess_data_def and_then_def)

theorem malformed_price_aborts_pipeline_witness:
  "self_data (fetched [(''2024-01-04'', example_record ''1.10''), (''2024-01-05'', example_record ''N/A'')])
     = Some [(''Time Series FX (Daily)'',
              [(''2024-01-04'', example_record ''1.10''), (''2024-01-05'', example_record ''N/A'')])] \<and>
   map_of (example_record ''N/A'') ''4. close'' = Some ''N/A'' \<and>
   example_to_float ''N/A'' = None \<and>
   main_pipeline example_to_float example_to_datetime
     (fetched [(''2024-01-04'', example_record ''1.10''), (''2024-01-05'', example_record ''N/A'')])
   = (Some ValueError,
      fetched [(''2024-01-04'', example_record ''1.10''), (''2024-01-05'', example_record ''N/A'')])"
proof -
  let ?raw = "[(''2024-01-04'', example_record ''1.10''), (''2024-01-05'', example_record ''N/A'')]"
  have h: "self_data (fetched ?raw) = Some [(''Time Series FX (Daily)'', ?raw)]"
    "map_of [(''Time Series FX (Daily)'', ?raw)] ''Time Series FX (Daily)'' = Some ?raw"
    "(''2024-01-05'', example_record ''N/A'') \<in> set ?raw"
    "map_of (example_record ''N/A'') ''4. close'' = Some ''N/A''"
    "example_to_float ''N/A'' = None"
    by (simp_all add: fetched_def init_def example_record_def example_to_float_def)
  from malformed_price_aborts_pipeline[where to_float = example_to_float, OF h]
  show ?thesis using h by simp
qed





end
